theory Spec2Isabelle
  imports Main
begin

section \<open>Python values as seen by \<^verbatim>\<open>weather.py\<close>\<close>

text \<open>
  Every value the program handles comes out of \<^verbatim>\<open>response.json()\<close>: \<^verbatim>\<open>None\<close>, a bool, an
  int, a float, a str, a list or a dict with str keys. A Python float is kept abstract (the
  type parameter \<open>'f\<close>); what the interpreter does with one is a field of \<open>runtime\<close>.
  A \<open>char\<close> stands for one code point, so a str is a \<open>string\<close> of code points below 256.
  A dict is an association list in insertion order whose keys are distinct, as they are in a
  Python dict; lookup is \<open>map_of\<close>.
\<close>

datatype 'f json =
    JNull
  | JBool bool
  | JInt int
  | JFloat 'f
  | JStr string
  | JList "'f json list"
  | JDict "(string \<times> 'f json) list"

datatype py_error =
    KeyError | IndexError | TypeError | AttributeError | ValueError | OverflowError

text \<open>
  What the Python interpreter and the process environment supply:
  \<open>float_is_zero x\<close> is \<^verbatim>\<open>not x\<close>, \<open>float_str x\<close> is \<^verbatim>\<open>str(x)\<close> (also \<^verbatim>\<open>repr(x)\<close>),
  \<open>str_repr s\<close> is \<^verbatim>\<open>repr(s)\<close>, \<open>float_of_str s\<close> is \<^verbatim>\<open>float(s)\<close> (\<open>None\<close> for ValueError),
  \<open>float_of_int i\<close> is \<^verbatim>\<open>float(i)\<close> (\<open>None\<close> for OverflowError), and \<open>contact_email\<close> is
  \<^verbatim>\<open>os.environ.get('CONTACT_EMAIL')\<close>.
\<close>

record 'f runtime =
  float_is_zero :: "'f \<Rightarrow> bool"
  float_str :: "'f \<Rightarrow> string"
  str_repr :: "string \<Rightarrow> string"
  float_of_str :: "string \<Rightarrow> 'f option"
  float_of_int :: "int \<Rightarrow> 'f option"
  contact_email :: "string option"

definition bindE :: "py_error + 'a \<Rightarrow> ('a \<Rightarrow> py_error + 'b) \<Rightarrow> py_error + 'b" where
  "bindE m f = (case m of Inl e \<Rightarrow> Inl e | Inr v \<Rightarrow> f v)"

subsection \<open>Strings\<close>

definition nl :: string where
  "nl = [CHR 0x0A]"

definition deg :: string where
  "deg = [CHR 0xB0]"

text \<open>\<^verbatim>\<open>sep.join(xs)\<close>\<close>

fun join :: "string \<Rightarrow> string list \<Rightarrow> string" where
  "join sep [] = []"
| "join sep [x] = x"
| "join sep (x # y # ys) = x @ sep @ join sep (y # ys)"

definition digit :: "nat \<Rightarrow> char" where
  "digit n = ''0123456789'' ! n"

fun str_nat :: "nat \<Rightarrow> string" where
  "str_nat n = (if n < 10 then [digit n] else str_nat (n div 10) @ [digit (n mod 10)])"

definition str_int :: "int \<Rightarrow> string" where
  "str_int i = (if i < 0 then ''-'' @ str_nat (nat (- i)) else str_nat (nat i))"

text \<open>\<^verbatim>\<open>k in s\<close> for two strs: \<open>k\<close> occurs in \<open>s\<close> as a contiguous run.\<close>

fun contains_str :: "string \<Rightarrow> string \<Rightarrow> bool" where
  "contains_str k [] = (k = [])"
| "contains_str k (c # cs) = (take (length k) (c # cs) = k \<or> contains_str k cs)"

subsection \<open>Builtins on JSON values\<close>

text \<open>\<^verbatim>\<open>repr(v)\<close> and \<^verbatim>\<open>str(v)\<close>; the latter is what an f-string field \<^verbatim>\<open>{v}\<close> renders.\<close>

fun py_repr :: "'f runtime \<Rightarrow> 'f json \<Rightarrow> string" where
  "py_repr R JNull = ''None''"
| "py_repr R (JBool b) = (if b then ''True'' else ''False'')"
| "py_repr R (JInt i) = str_int i"
| "py_repr R (JFloat x) = float_str R x"
| "py_repr R (JStr s) = str_repr R s"
| "py_repr R (JList xs) = ''['' @ join '', '' (map (py_repr R) xs) @ '']''"
| "py_repr R (JDict kvs) =
     ''{'' @ join '', '' (map (\<lambda>kv. str_repr R (fst kv) @ '': '' @ py_repr R (snd kv)) kvs) @ ''}''"

fun py_str :: "'f runtime \<Rightarrow> 'f json \<Rightarrow> string" where
  "py_str R (JStr s) = s"
| "py_str R v = py_repr R v"

text \<open>\<^verbatim>\<open>bool(v)\<close>, the test of \<^verbatim>\<open>if v:\<close> and \<^verbatim>\<open>if not v:\<close>.\<close>

fun truthy :: "'f runtime \<Rightarrow> 'f json \<Rightarrow> bool" where
  "truthy R JNull = False"
| "truthy R (JBool b) = b"
| "truthy R (JInt i) = (i \<noteq> 0)"
| "truthy R (JFloat x) = (\<not> float_is_zero R x)"
| "truthy R (JStr s) = (s \<noteq> [])"
| "truthy R (JList xs) = (xs \<noteq> [])"
| "truthy R (JDict kvs) = (kvs \<noteq> [])"

text \<open>\<^verbatim>\<open>v[k]\<close> for a str \<open>k\<close>.\<close>

fun getitem :: "'f json \<Rightarrow> string \<Rightarrow> py_error + 'f json" where
  "getitem (JDict kvs) k = (case map_of kvs k of None \<Rightarrow> Inl KeyError | Some v \<Rightarrow> Inr v)"
| "getitem v k = Inl TypeError"

text \<open>\<^verbatim>\<open>v[i]\<close> for an index \<open>i\<close> produced by \<^verbatim>\<open>range\<close> (never negative).\<close>

fun getindex :: "'f json \<Rightarrow> nat \<Rightarrow> py_error + 'f json" where
  "getindex (JList xs) i = (if i < length xs then Inr (xs ! i) else Inl IndexError)"
| "getindex (JStr s) i = (if i < length s then Inr (JStr [s ! i]) else Inl IndexError)"
| "getindex (JDict kvs) i = Inl KeyError"
| "getindex v i = Inl TypeError"

text \<open>\<^verbatim>\<open>v.get(k, d)\<close>: only a dict has the method.\<close>

fun py_get :: "'f json \<Rightarrow> string \<Rightarrow> 'f json \<Rightarrow> py_error + 'f json" where
  "py_get (JDict kvs) k d = Inr (case map_of kvs k of None \<Rightarrow> d | Some v \<Rightarrow> v)"
| "py_get v k d = Inl AttributeError"

text \<open>\<^verbatim>\<open>len(v)\<close>\<close>

fun py_len :: "'f json \<Rightarrow> py_error + nat" where
  "py_len (JList xs) = Inr (length xs)"
| "py_len (JStr s) = Inr (length s)"
| "py_len (JDict kvs) = Inr (length kvs)"
| "py_len v = Inl TypeError"

text \<open>
  \<^verbatim>\<open>v[:5]\<close>. A dict raises (TypeError, the slice being unhashable; KeyError from Python 3.12
  on, where it is hashable).
\<close>

fun py_slice5 :: "'f json \<Rightarrow> py_error + 'f json" where
  "py_slice5 (JList xs) = Inr (JList (take 5 xs))"
| "py_slice5 (JStr s) = Inr (JStr (take 5 s))"
| "py_slice5 v = Inl TypeError"

text \<open>The items \<^verbatim>\<open>for x in v\<close> runs over: a dict yields its keys, a str its characters.\<close>

fun py_iter :: "'f json \<Rightarrow> py_error + 'f json list" where
  "py_iter (JList xs) = Inr xs"
| "py_iter (JStr s) = Inr (map (\<lambda>c. JStr [c]) s)"
| "py_iter (JDict kvs) = Inr (map (\<lambda>kv. JStr (fst kv)) kvs)"
| "py_iter v = Inl TypeError"

text \<open>\<^verbatim>\<open>k in v\<close> for a str \<open>k\<close>.\<close>

fun py_contains :: "string \<Rightarrow> 'f json \<Rightarrow> py_error + bool" where
  "py_contains k (JDict kvs) = Inr (k \<in> set (map fst kvs))"
| "py_contains k (JList xs) = Inr (JStr k \<in> set xs)"
| "py_contains k (JStr s) = Inr (contains_str k s)"
| "py_contains k v = Inl TypeError"

text \<open>\<^verbatim>\<open>float(v)\<close>\<close>

fun py_float :: "'f runtime \<Rightarrow> 'f json \<Rightarrow> py_error + 'f" where
  "py_float R (JFloat x) = Inr x"
| "py_float R (JInt i) =
     (case float_of_int R i of None \<Rightarrow> Inl OverflowError | Some x \<Rightarrow> Inr x)"
| "py_float R (JBool b) =
     (case float_of_int R (if b then 1 else 0) of None \<Rightarrow> Inl OverflowError | Some x \<Rightarrow> Inr x)"
| "py_float R (JStr s) =
     (case float_of_str R s of None \<Rightarrow> Inl ValueError | Some x \<Rightarrow> Inr x)"
| "py_float R v = Inl TypeError"

section \<open>The HTTP client\<close>

text \<open>
  A request is what \<^verbatim>\<open>client.get\<close> is given. Its outcome is either an exception raised by
  \<^verbatim>\<open>client.get\<close> (timeout, connection failure, unusable URL) or a response with a status code
  and the outcome of \<^verbatim>\<open>response.json()\<close> (\<open>None\<close> when decoding raises). The network is any
  function from the requests sent so far and the present request to an outcome. The list of
  requests sent is threaded through every call.
\<close>

record request =
  url :: string
  params :: "(string \<times> string) list"
  headers :: "(string \<times> string) list"

datatype 'f http_result =
    TransportError
  | Response nat "'f json option"

type_synonym 'f network = "request list \<Rightarrow> request \<Rightarrow> 'f http_result"

definition client_get ::
  "'f network \<Rightarrow> request \<Rightarrow> request list \<Rightarrow> 'f http_result \<times> request list" where
  "client_get net req sent = (net sent req, sent @ [req])"

text \<open>\<^verbatim>\<open>response.raise_for_status()\<close> raises unless the status is 2xx.\<close>

definition is_success :: "nat \<Rightarrow> bool" where
  "is_success status = (200 \<le> status \<and> status < 300)"

text \<open>
  The body of the \<^verbatim>\<open>try\<close> shared by the request helpers: get, raise for status, decode.
  \<open>Inl\<close> is any exception raised inside it.
\<close>

definition fetch_json :: "'f http_result \<Rightarrow> unit + 'f json" where
  "fetch_json r =
     (case r of
        TransportError \<Rightarrow> Inl ()
      | Response status body \<Rightarrow>
          if is_success status then (case body of None \<Rightarrow> Inl () | Some v \<Rightarrow> Inr v)
          else Inl ())"

section \<open>Constants\<close>

definition NWS_API_BASE :: string where
  "NWS_API_BASE = ''https://api.weather.gov''"

definition USER_AGENT :: string where
  "USER_AGENT = ''weather-app/1.0''"

definition GEOCODE_API_BASE :: string where
  "GEOCODE_API_BASE = ''https://nominatim.openstreetmap.org/search''"

definition GEOCODE_USER_AGENT :: "'f runtime \<Rightarrow> string" where
  "GEOCODE_USER_AGENT R =
     ''weather-app/1.0 ('' @
     (case contact_email R of None \<Rightarrow> ''contact@example.com'' | Some e \<Rightarrow> e) @ '')''"

section \<open>Helper functions\<close>

definition nws_request :: "string \<Rightarrow> request" where
  "nws_request u =
     \<lparr>url = u, params = [],
      headers = [(''User-Agent'', USER_AGENT), (''Accept'', ''application/geo+json'')]\<rparr>"

text \<open>
  \<^verbatim>\<open>make_nws_request(url)\<close>. Python's \<^verbatim>\<open>None\<close> is \<open>JNull\<close>. The second call of
  \<^verbatim>\<open>get_forecast\<close> passes whatever JSON value the first response held as the URL; for
  anything but a str \<^verbatim>\<open>client.get\<close> raises inside the \<^verbatim>\<open>try\<close> before a request is sent.
\<close>

fun make_nws_request ::
  "'f network \<Rightarrow> 'f json \<Rightarrow> request list \<Rightarrow> 'f json \<times> request list" where
  "make_nws_request net (JStr u) sent =
     (case client_get net (nws_request u) sent of
        (r, sent') \<Rightarrow> (case fetch_json r of Inl _ \<Rightarrow> (JNull, sent') | Inr v \<Rightarrow> (v, sent')))"
| "make_nws_request net v sent = (JNull, sent)"

record 'f geocode_result =
  latitude :: 'f
  longitude :: 'f
  display_name :: "'f json"

definition geocode_request :: "'f runtime \<Rightarrow> string \<Rightarrow> request" where
  "geocode_request R q =
     \<lparr>url = GEOCODE_API_BASE,
      params = [(''q'', q), (''format'', ''json''), (''limit'', ''1'')],
      headers = [(''User-Agent'', GEOCODE_USER_AGENT R), (''Accept'', ''application/json'')]\<rparr>"

text \<open>\<^verbatim>\<open>data[0]\<close> and the building of the result dict, inside the \<^verbatim>\<open>try\<close>.\<close>

definition first_match :: "'f runtime \<Rightarrow> 'f json \<Rightarrow> py_error + 'f geocode_result" where
  "first_match R data =
     bindE (getindex data 0) (\<lambda>item.
     bindE (getitem item ''lat'') (\<lambda>lat.
     bindE (py_float R lat) (\<lambda>la.
     bindE (getitem item ''lon'') (\<lambda>lon.
     bindE (py_float R lon) (\<lambda>lo.
     bindE (py_get item ''display_name'' JNull) (\<lambda>name.
     Inr \<lparr>latitude = la, longitude = lo, display_name = name\<rparr>))))))"

definition make_geocode_request ::
  "'f runtime \<Rightarrow> 'f network \<Rightarrow> string \<Rightarrow> request list
     \<Rightarrow> 'f geocode_result option \<times> request list" where
  "make_geocode_request R net q sent =
     (case client_get net (geocode_request R q) sent of
        (r, sent') \<Rightarrow>
          (case fetch_json r of
             Inl _ \<Rightarrow> (None, sent')
           | Inr data \<Rightarrow>
               if \<not> truthy R data then (None, sent')
               else (case first_match R data of
                       Inl _ \<Rightarrow> (None, sent')
                     | Inr res \<Rightarrow> (Some res, sent'))))"

text \<open>\<^verbatim>\<open>props.get(key, default)\<close> rendered in an f-string.\<close>

definition get_str :: "'f runtime \<Rightarrow> 'f json \<Rightarrow> string \<Rightarrow> string \<Rightarrow> py_error + string" where
  "get_str R props k d = bindE (py_get props k (JStr d)) (\<lambda>v. Inr (py_str R v))"

definition format_alert :: "'f runtime \<Rightarrow> 'f json \<Rightarrow> py_error + string" where
  "format_alert R feature =
     bindE (getitem feature ''properties'') (\<lambda>props.
     bindE (get_str R props ''event'' ''Unknown'') (\<lambda>event.
     bindE (get_str R props ''areaDesc'' ''Unknown'') (\<lambda>area.
     bindE (get_str R props ''severity'' ''Unknown'') (\<lambda>severity.
     bindE (get_str R props ''description'' ''No description available'') (\<lambda>description.
     bindE (get_str R props ''instruction'' ''No specific instructions provided'') (\<lambda>instruction.
     Inr (nl @ ''Event: '' @ event @ nl @
          ''Area: '' @ area @ nl @
          ''Severity: '' @ severity @ nl @
          ''Description: '' @ description @ nl @
          ''Instructions: '' @ instruction @ nl)))))))"

definition openmeteo_url :: "'f runtime \<Rightarrow> 'f \<Rightarrow> 'f \<Rightarrow> string" where
  "openmeteo_url R lat lon =
     ''https://api.open-meteo.com/v1/forecast?latitude='' @ float_str R lat @
     ''&longitude='' @ float_str R lon @
     ''&current_weather=true&hourly=temperature_2m,relative_humidity_2m,wind_speed_10m,wind_direction_10m&daily=temperature_2m_max,temperature_2m_min,weathercode&timezone=auto&forecast_days=3''"

definition openmeteo_request :: "'f runtime \<Rightarrow> 'f \<Rightarrow> 'f \<Rightarrow> request" where
  "openmeteo_request R lat lon = \<lparr>url = openmeteo_url R lat lon, params = [], headers = []\<rparr>"

definition make_openmeteo_request ::
  "'f runtime \<Rightarrow> 'f network \<Rightarrow> 'f \<Rightarrow> 'f \<Rightarrow> request list \<Rightarrow> 'f json \<times> request list" where
  "make_openmeteo_request R net lat lon sent =
     (case client_get net (openmeteo_request R lat lon) sent of
        (r, sent') \<Rightarrow> (case fetch_json r of Inl _ \<Rightarrow> (JNull, sent') | Inr v \<Rightarrow> (v, sent')))"

text \<open>The f-string of line 99.\<close>

definition daily_text :: "'f runtime \<Rightarrow> 'f json \<Rightarrow> 'f json \<Rightarrow> 'f json \<Rightarrow> 'f json \<Rightarrow> string" where
  "daily_text R date max_temp min_temp code =
     py_str R date @ '': High '' @ py_str R max_temp @ deg @ ''C, Low '' @
     py_str R min_temp @ deg @ ''C, Code '' @ py_str R code @ nl"

text \<open>One pass of the loop of \<^verbatim>\<open>format_openmeteo_forecast\<close>: the line for day \<open>i\<close>.\<close>

definition daily_line :: "'f runtime \<Rightarrow> 'f json \<Rightarrow> nat \<Rightarrow> py_error + string" where
  "daily_line R daily i =
     bindE (bindE (getitem daily ''time'') (\<lambda>c. getindex c i)) (\<lambda>date.
     bindE (bindE (getitem daily ''temperature_2m_max'') (\<lambda>c. getindex c i)) (\<lambda>max_temp.
     bindE (bindE (getitem daily ''temperature_2m_min'') (\<lambda>c. getindex c i)) (\<lambda>min_temp.
     bindE (bindE (getitem daily ''weathercode'') (\<lambda>c. getindex c i)) (\<lambda>code.
     Inr (daily_text R date max_temp min_temp code)))))"

text \<open>The loop over \<^verbatim>\<open>range(n)\<close>, from index \<open>i\<close> on, appending to \<open>forecast\<close>.\<close>

fun daily_loop :: "'f runtime \<Rightarrow> 'f json \<Rightarrow> nat list \<Rightarrow> string \<Rightarrow> py_error + string" where
  "daily_loop R daily [] forecast = Inr forecast"
| "daily_loop R daily (i # is) forecast =
     bindE (daily_line R daily i) (\<lambda>line. daily_loop R daily is (forecast @ line))"

definition current_block :: "'f runtime \<Rightarrow> 'f json \<Rightarrow> py_error + string" where
  "current_block R current =
     bindE (get_str R current ''temperature'' ''N/A'') (\<lambda>temperature.
     bindE (get_str R current ''windspeed'' ''N/A'') (\<lambda>windspeed.
     bindE (get_str R current ''winddirection'' ''N/A'') (\<lambda>winddirection.
     bindE (get_str R current ''weathercode'' ''N/A'') (\<lambda>weathercode.
     Inr (nl @ ''Current Weather:'' @ nl @
          ''Temperature: '' @ temperature @ deg @ ''C'' @ nl @
          ''Wind: '' @ windspeed @ '' km/h from '' @ winddirection @ deg @ nl @
          ''Weather Code: '' @ weathercode @
          '' (see https://open-meteo.com/en/docs for codes)'' @ nl @ nl @
          ''Next 3 Days Forecast:'' @ nl)))))"

definition format_openmeteo_forecast :: "'f runtime \<Rightarrow> 'f json \<Rightarrow> py_error + string" where
  "format_openmeteo_forecast R data =
     bindE (py_get data ''current_weather'' (JDict [])) (\<lambda>current.
     bindE (py_get data ''daily'' (JDict [])) (\<lambda>daily.
     bindE (current_block R current) (\<lambda>forecast.
     bindE (py_get daily ''time'' (JList [])) (\<lambda>times.
     bindE (py_len times) (\<lambda>n.
     daily_loop R daily [0 ..< min 3 n] forecast)))))"

section \<open>Tools\<close>

text \<open>\<^verbatim>\<open>geocode_city\<close> returns the result dict or an error string.\<close>

definition geocode_city ::
  "'f runtime \<Rightarrow> 'f network \<Rightarrow> string \<Rightarrow> request list
     \<Rightarrow> (string + 'f geocode_result) \<times> request list" where
  "geocode_city R net city sent =
     (case make_geocode_request R net city sent of
        (None, sent') \<Rightarrow> (Inl ''Unable to geocode the provided location.'', sent')
      | (Some result, sent') \<Rightarrow> (Inr result, sent'))"

definition alerts_url :: "string \<Rightarrow> string" where
  "alerts_url state = NWS_API_BASE @ ''/alerts/active/area/'' @ state"

definition delimiter :: string where
  "delimiter = nl @ ''---'' @ nl"

text \<open>A list comprehension or loop body that may raise: the first exception ends it.\<close>

fun map_err :: "('a \<Rightarrow> py_error + 'b) \<Rightarrow> 'a list \<Rightarrow> py_error + 'b list" where
  "map_err f [] = Inr []"
| "map_err f (x # xs) = bindE (f x) (\<lambda>y. bindE (map_err f xs) (\<lambda>ys. Inr (y # ys)))"

definition get_alerts ::
  "'f runtime \<Rightarrow> 'f network \<Rightarrow> string \<Rightarrow> request list
     \<Rightarrow> (py_error + string) \<times> request list" where
  "get_alerts R net state sent =
     (case make_nws_request net (JStr (alerts_url state)) sent of
        (data, sent') \<Rightarrow>
          (if \<not> truthy R data then Inr ''Unable to fetch alerts or no alerts found.''
           else
             bindE (py_contains ''features'' data) (\<lambda>present.
             if \<not> present then Inr ''Unable to fetch alerts or no alerts found.''
             else
               bindE (getitem data ''features'') (\<lambda>features.
               if \<not> truthy R features then Inr ''No active alerts for this state.''
               else
                 bindE (py_iter features) (\<lambda>fs.
                 bindE (map_err (format_alert R) fs) (\<lambda>alerts.
                 Inr (join delimiter alerts))))),
           sent'))"

definition points_url :: "'f runtime \<Rightarrow> 'f \<Rightarrow> 'f \<Rightarrow> string" where
  "points_url R lat lon =
     NWS_API_BASE @ ''/points/'' @ float_str R lat @ '','' @ float_str R lon"

text \<open>The body of the loop over \<^verbatim>\<open>periods[:5]\<close>: the block for one period.\<close>

definition period_block :: "'f runtime \<Rightarrow> 'f json \<Rightarrow> py_error + string" where
  "period_block R period =
     bindE (getitem period ''name'') (\<lambda>name.
     bindE (getitem period ''temperature'') (\<lambda>temperature.
     bindE (getitem period ''temperatureUnit'') (\<lambda>unit.
     bindE (getitem period ''windSpeed'') (\<lambda>windSpeed.
     bindE (getitem period ''windDirection'') (\<lambda>windDirection.
     bindE (getitem period ''detailedForecast'') (\<lambda>detailed.
     Inr (nl @ py_str R name @ '':'' @ nl @
          ''Temperature: '' @ py_str R temperature @ deg @ py_str R unit @ nl @
          ''Wind: '' @ py_str R windSpeed @ '' '' @ py_str R windDirection @ nl @
          ''Forecast: '' @ py_str R detailed @ nl)))))))"

text \<open>Lines 153 to 163: the periods of a forecast response, formatted and joined.\<close>

definition format_periods :: "'f runtime \<Rightarrow> 'f json \<Rightarrow> py_error + string" where
  "format_periods R forecast_data =
     bindE (getitem forecast_data ''properties'') (\<lambda>props.
     bindE (getitem props ''periods'') (\<lambda>periods.
     bindE (py_slice5 periods) (\<lambda>first5.
     bindE (py_iter first5) (\<lambda>ps.
     bindE (map_err (period_block R) ps) (\<lambda>forecasts.
     Inr (join delimiter forecasts))))))"

text \<open>Lines 165 to 170: the fallback to Open-Meteo.\<close>

definition fallback ::
  "'f runtime \<Rightarrow> 'f network \<Rightarrow> 'f \<Rightarrow> 'f \<Rightarrow> request list
     \<Rightarrow> (py_error + string) \<times> request list" where
  "fallback R net lat lon sent =
     (case make_openmeteo_request R net lat lon sent of
        (openmeteo_data, sent') \<Rightarrow>
          (if truthy R openmeteo_data then format_openmeteo_forecast R openmeteo_data
           else Inr ''Unable to fetch forecast data from any provider.'',
           sent'))"

definition get_forecast ::
  "'f runtime \<Rightarrow> 'f network \<Rightarrow> 'f \<Rightarrow> 'f \<Rightarrow> request list
     \<Rightarrow> (py_error + string) \<times> request list" where
  "get_forecast R net lat lon sent =
     (case make_nws_request net (JStr (points_url R lat lon)) sent of
        (points_data, sent1) \<Rightarrow>
          if truthy R points_data then
            (case bindE (getitem points_data ''properties'') (\<lambda>p. getitem p ''forecast'') of
               Inl e \<Rightarrow> (Inl e, sent1)
             | Inr forecast_url \<Rightarrow>
                 (case make_nws_request net forecast_url sent1 of
                    (forecast_data, sent2) \<Rightarrow>
                      if truthy R forecast_data then (format_periods R forecast_data, sent2)
                      else fallback R net lat lon sent2))
          else fallback R net lat lon sent1)"

section \<open>Example inputs\<close>

text \<open>A runtime whose floats are the integers, written with one decimal.\<close>

definition ex_runtime :: "int runtime" where
  "ex_runtime =
     \<lparr>float_is_zero = (\<lambda>x. x = 0),
      float_str = (\<lambda>x. str_int x @ ''.0''),
      str_repr = (\<lambda>s. [CHR 0x27] @ s @ [CHR 0x27]),
      float_of_str = (\<lambda>s. None),
      float_of_int = Some,
      contact_email = None\<rparr>"

definition ex_forecast_url :: string where
  "ex_forecast_url = ''https://api.weather.gov/gridpoints/SEW/124,67/forecast''"

definition ex_points_doc :: "int json" where
  "ex_points_doc = JDict [(''properties'', JDict [(''forecast'', JStr ex_forecast_url)])]"

definition ex_period :: "string \<Rightarrow> int json" where
  "ex_period n =
     JDict [(''name'', JStr n), (''temperature'', JInt 50), (''temperatureUnit'', JStr ''F''),
            (''windSpeed'', JStr ''5 mph''), (''windDirection'', JStr ''N''),
            (''detailedForecast'', JStr ''Clear.'')]"

definition ex_block :: "string \<Rightarrow> string" where
  "ex_block n =
     nl @ n @ '':'' @ nl @ ''Temperature: 50'' @ deg @ ''F'' @ nl @ ''Wind: 5 mph N'' @ nl @
     ''Forecast: Clear.'' @ nl"

definition ex_forecast_doc :: "int json list \<Rightarrow> int json" where
  "ex_forecast_doc ps = JDict [(''properties'', JDict [(''periods'', JList ps)])]"

text \<open>The first request is answered with \<open>a\<close>, every later one with \<open>b\<close>.\<close>

definition ex_net :: "int http_result \<Rightarrow> int http_result \<Rightarrow> int network" where
  "ex_net a b = (\<lambda>sent req. if sent = [] then a else b)"

text \<open>Every request is answered with \<open>r\<close>.\<close>

definition ex_always :: "int http_result \<Rightarrow> int network" where
  "ex_always r = (\<lambda>sent req. r)"

definition ex_daily :: "int json" where
  "ex_daily =
     JDict [(''time'', JList [JStr ''2024-05-01'', JStr ''2024-05-02'', JStr ''2024-05-03'',
                              JStr ''2024-05-04'', JStr ''2024-05-05'']),
            (''temperature_2m_max'', JList [JInt 21, JInt 22, JInt 23, JInt 24, JInt 25]),
            (''temperature_2m_min'', JList [JInt 11, JInt 12, JInt 13, JInt 14, JInt 15]),
            (''weathercode'', JList [JInt 1, JInt 2, JInt 3, JInt 61, JInt 0])]"

definition ex_payload :: "int json" where
  "ex_payload = JDict [(''current_weather'', JDict [(''temperature'', JInt 18)]), (''daily'', ex_daily)]"

definition ex_head :: string where
  "ex_head =
     nl @ ''Current Weather:'' @ nl @
     ''Temperature: 18'' @ deg @ ''C'' @ nl @
     ''Wind: N/A km/h from N/A'' @ deg @ nl @
     ''Weather Code: N/A (see https://open-meteo.com/en/docs for codes)'' @ nl @ nl @
     ''Next 3 Days Forecast:'' @ nl"

definition ex_alert :: "int json" where
  "ex_alert = JDict [(''properties'', JDict [(''event'', JStr ''Flood Warning'')])]"

definition ex_alert_text :: string where
  "ex_alert_text =
     nl @ ''Event: Flood Warning'' @ nl @
     ''Area: Unknown'' @ nl @
     ''Severity: Unknown'' @ nl @
     ''Description: No description available'' @ nl @
     ''Instructions: No specific instructions provided'' @ nl"

section \<open>Auxiliary facts\<close>

lemma bindE_Inr [simp]: "bindE (Inr v) f = f v"
  by (simp add: bindE_def)

lemma bindE_Inl [simp]: "bindE (Inl e) f = Inl e"
  by (simp add: bindE_def)

lemma ex_always_apply [simp]: "ex_always r sent req = r"
  by (simp add: ex_always_def)

lemma fetch_json_ok: "is_success st \<Longrightarrow> fetch_json (Response st (Some v)) = Inr v"
  by (simp add: fetch_json_def)

lemma make_nws_request_ok:
  "net sent (nws_request u) = Response st (Some v) \<Longrightarrow> is_success st \<Longrightarrow>
   make_nws_request net (JStr u) sent = (v, sent @ [nws_request u])"
  by (simp add: client_get_def fetch_json_ok)

lemma make_nws_request_snd:
  "snd (make_nws_request net (JStr u) sent) = sent @ [nws_request u]"
  by (simp add: client_get_def split: sum.splits)

lemma map_err_list_all2:
  "map_err f xs = Inr ys \<longleftrightarrow> list_all2 (\<lambda>x y. f x = Inr y) xs ys"
proof (induction xs arbitrary: ys)
  case Nil
  show ?case by auto
next
  case (Cons x xs)
  show ?case
  proof (cases "f x")
    case (Inl e)
    then show ?thesis by (auto simp: list_all2_Cons1)
  next
    case (Inr y)
    then show ?thesis
      using Cons.IH by (cases "map_err f xs") (auto simp: list_all2_Cons1)
  qed
qed

lemma fallback_snd:
  "snd (fallback R net lat lon sent) = sent @ [openmeteo_request R lat lon]"
  by (simp add: fallback_def make_openmeteo_request_def client_get_def split: sum.splits)

lemma fallback_unavailable:
  "\<not> truthy R (fst (make_openmeteo_request R net lat lon sent)) \<Longrightarrow>
   fst (fallback R net lat lon sent) = Inr ''Unable to fetch forecast data from any provider.''"
  by (cases "make_openmeteo_request R net lat lon sent") (simp add: fallback_def)

lemma get_forecast_points_falsy:
  assumes "\<not> truthy R (fst (make_nws_request net (JStr (points_url R lat lon)) sent))"
  shows "get_forecast R net lat lon sent =
     fallback R net lat lon (sent @ [nws_request (points_url R lat lon)])"
proof -
  obtain pd sp where eq: "make_nws_request net (JStr (points_url R lat lon)) sent = (pd, sp)"
    by (cases "make_nws_request net (JStr (points_url R lat lon)) sent")
  have "sp = sent @ [nws_request (points_url R lat lon)]"
    using make_nws_request_snd [of net "points_url R lat lon" sent] eq by simp
  then show ?thesis
    using assms eq by (simp add: get_forecast_def del: make_nws_request.simps)
qed

lemma get_forecast_forecast_falsy:
  assumes p: "net sent (nws_request (points_url R lat lon)) = Response sp (Some pd)"
    and s: "is_success sp" and "truthy R pd"
    and "getitem pd ''properties'' = Inr pp" and "getitem pp ''forecast'' = Inr furl"
    and "\<not> truthy R (fst (make_nws_request net furl (sent @ [nws_request (points_url R lat lon)])))"
  shows "get_forecast R net lat lon sent =
     fallback R net lat lon
       (snd (make_nws_request net furl (sent @ [nws_request (points_url R lat lon)])))"
proof -
  obtain fd sf where eq:
    "make_nws_request net furl (sent @ [nws_request (points_url R lat lon)]) = (fd, sf)"
    by (cases "make_nws_request net furl (sent @ [nws_request (points_url R lat lon)])")
  have "make_nws_request net (JStr (points_url R lat lon)) sent =
      (pd, sent @ [nws_request (points_url R lat lon)])"
    using p s by (rule make_nws_request_ok)
  then show ?thesis
    using assms eq by (simp add: get_forecast_def del: make_nws_request.simps)
qed

lemma get_forecast_authoritative:
  assumes p: "net sent (nws_request (points_url R lat lon)) = Response sp (Some pd)"
    and s: "is_success sp" and "truthy R pd"
    and "getitem pd ''properties'' = Inr pp" and "getitem pp ''forecast'' = Inr (JStr u)"
    and p2: "net (sent @ [nws_request (points_url R lat lon)]) (nws_request u) =
        Response sf (Some fd)"
    and sf: "is_success sf" and "truthy R fd"
  shows "get_forecast R net lat lon sent =
     (format_periods R fd, sent @ [nws_request (points_url R lat lon), nws_request u])"
proof -
  have a: "make_nws_request net (JStr (points_url R lat lon)) sent =
      (pd, sent @ [nws_request (points_url R lat lon)])"
    using p s by (rule make_nws_request_ok)
  have b: "make_nws_request net (JStr u) (sent @ [nws_request (points_url R lat lon)]) =
      (fd, (sent @ [nws_request (points_url R lat lon)]) @ [nws_request u])"
    using p2 sf by (rule make_nws_request_ok)
  show ?thesis
    using assms(3,4,5,8) a b by (simp add: get_forecast_def del: make_nws_request.simps)
qed

lemma format_periods_list:
  assumes "getitem fd ''properties'' = Inr fp" and "getitem fp ''periods'' = Inr (JList ps)"
    and "list_all2 (\<lambda>p b. period_block R p = Inr b) (take 5 ps) blocks"
  shows "format_periods R fd = Inr (join delimiter blocks)"
  using assms map_err_list_all2 [of "period_block R" "take 5 ps" blocks]
  by (simp add: format_periods_def)

lemma ex_period_block: "period_block ex_runtime (ex_period n) = Inr (ex_block n)"
  by (simp add: period_block_def ex_period_def ex_block_def str_int_def digit_def)

lemma ex_points_url: "points_url ex_runtime 47 (- 122) = ''https://api.weather.gov/points/47.0,-122.0''"
  by (simp add: points_url_def ex_runtime_def NWS_API_BASE_def str_int_def digit_def)

section \<open>Claims\<close>

text \<open>
  C1. The claim: whatever the authoritative provider answers, also a 2xx JSON body without
  the expected keys, the forecast fetch collapses to unavailable and \<open>get_forecast\<close> returns a
  string. The code: a points response \<^verbatim>\<open>{"type": "Feature"}\<close> with status 200 is truthy, and
  \<^verbatim>\<open>points_data["properties"]\<close> on line 149 raises KeyError outside every \<^verbatim>\<open>try\<close>; no request is
  made to the fallback provider.
\<close>

theorem get_forecast_missing_key_escapes:
  "get_forecast ex_runtime
     (ex_always (Response 200 (Some (JDict [(''type'', JStr ''Feature'')])))) 47 (- 122) [] =
   (Inl KeyError, [nws_request ''https://api.weather.gov/points/47.0,-122.0''])"
  by (simp add: get_forecast_def client_get_def fetch_json_def is_success_def ex_points_url)

text \<open>
  C10. When both authoritative calls succeed and the list of periods is empty,
  \<open>get_forecast\<close> returns the empty string: only the two requests to the authoritative
  provider are sent, none to the fallback provider, and the result is not the no-provider
  message.
\<close>

theorem get_forecast_empty_periods:
  assumes "net sent (nws_request (points_url R lat lon)) = Response sp (Some pd)"
    and "is_success sp" and "truthy R pd"
    and "getitem pd ''properties'' = Inr pp" and "getitem pp ''forecast'' = Inr (JStr u)"
    and "net (sent @ [nws_request (points_url R lat lon)]) (nws_request u) =
        Response sf (Some fd)"
    and "is_success sf" and "truthy R fd"
    and "getitem fd ''properties'' = Inr fp" and "getitem fp ''periods'' = Inr (JList [])"
  shows "get_forecast R net lat lon sent =
           (Inr [], sent @ [nws_request (points_url R lat lon), nws_request u]) \<and>
         openmeteo_request R lat lon \<notin> set [nws_request (points_url R lat lon), nws_request u] \<and>
         (Inr [] :: py_error + string) \<noteq> Inr ''Unable to fetch forecast data from any provider.''"
proof -
  have "format_periods R fd = Inr []"
    using assms(9,10) by (simp add: format_periods_def)
  then show ?thesis
    using get_forecast_authoritative [OF assms(1-8)]
    by (simp add: nws_request_def openmeteo_request_def)
qed

theorem get_forecast_empty_periods_witness:
  "get_forecast ex_runtime
     (ex_net (Response 200 (Some ex_points_doc)) (Response 200 (Some (ex_forecast_doc []))))
     47 (- 122) [] =
   (Inr [], [nws_request ''https://api.weather.gov/points/47.0,-122.0'',
             nws_request ex_forecast_url])"
  using get_forecast_empty_periods [where R = ex_runtime and lat = 47 and lon = "- 122"
      and sent = "[]" and u = ex_forecast_url and pd = ex_points_doc
      and fd = "ex_forecast_doc []" and sp = 200 and sf = 200
      and net = "ex_net (Response 200 (Some ex_points_doc)) (Response 200 (Some (ex_forecast_doc [])))"]
  by (simp add: ex_net_def ex_points_doc_def ex_forecast_doc_def is_success_def ex_points_url)

text \<open>
  C8. Formatting an alert whose properties hold none of the five optional fields yields the
  five placeholder lines, in the order event, area, severity, description, instructions.
\<close>

theorem format_alert_all_absent:
  assumes "getitem feature ''properties'' = Inr (JDict props)"
    and "map_of props ''event'' = None" and "map_of props ''areaDesc'' = None"
    and "map_of props ''severity'' = None" and "map_of props ''description'' = None"
    and "map_of props ''instruction'' = None"
  shows "format_alert R feature =
     Inr (nl @ ''Event: Unknown'' @ nl @
          ''Area: Unknown'' @ nl @
          ''Severity: Unknown'' @ nl @
          ''Description: No description available'' @ nl @
          ''Instructions: No specific instructions provided'' @ nl)"
  using assms by (simp add: format_alert_def get_str_def)

theorem format_alert_all_absent_witness:
  "format_alert ex_runtime (JDict [(''type'', JStr ''Feature''), (''properties'', JDict [])]) =
     Inr (nl @ ''Event: Unknown'' @ nl @
          ''Area: Unknown'' @ nl @
          ''Severity: Unknown'' @ nl @
          ''Description: No description available'' @ nl @
          ''Instructions: No specific instructions provided'' @ nl)"
  using format_alert_all_absent [where R = ex_runtime and props = "[]"
      and feature = "JDict [(''type'', JStr ''Feature''), (''properties'', JDict [])]"]
  by simp

text \<open>
  C9. When the geocoding call fails (transport error or a status outside 2xx), its body is
  not JSON, the body is an empty list of matches, or the first match cannot be turned into
  a result, \<open>geocode_city\<close> returns the fixed error string, after the one request. The
  result type of \<open>geocode_city\<close> has no exception: every one is caught in
  \<open>make_geocode_request\<close>.
\<close>

theorem geocode_city_not_found:
  assumes "net sent (geocode_request R city) = r"
    and "r = TransportError \<or>
         (\<exists>status body. r = Response status body \<and>
            (\<not> is_success status \<or> body = None \<or> body = Some (JList []) \<or>
             (\<exists>data e. body = Some data \<and> first_match R data = Inl e)))"
  shows "geocode_city R net city sent =
     (Inl ''Unable to geocode the provided location.'', sent @ [geocode_request R city])"
  using assms
  by (auto simp: geocode_city_def make_geocode_request_def client_get_def fetch_json_def
      split: sum.splits option.splits if_splits)

theorem geocode_city_not_found_witness:
  "geocode_city ex_runtime (ex_always (Response 200 (Some (JList [])))) ''Atlantis'' [] =
     (Inl ''Unable to geocode the provided location.'',
      [geocode_request ex_runtime ''Atlantis''])"
  using geocode_city_not_found [where R = ex_runtime and city = "''Atlantis''"
      and sent = "[]" and net = "ex_always (Response 200 (Some (JList [])))"
      and r = "Response 200 (Some (JList []))"]
  by simp

lemma upt_0_3: "[0..<3] = [0, 1, 2::nat]"
  by (simp add: upt_rec)

lemma get_alerts_fst:
  assumes "make_nws_request net (JStr (alerts_url state)) sent = (data, s)"
  shows "fst (get_alerts R net state sent) =
     (if \<not> truthy R data then Inr ''Unable to fetch alerts or no alerts found.''
      else
        bindE (py_contains ''features'' data) (\<lambda>present.
        if \<not> present then Inr ''Unable to fetch alerts or no alerts found.''
        else
          bindE (getitem data ''features'') (\<lambda>features.
          if \<not> truthy R features then Inr ''No active alerts for this state.''
          else
            bindE (py_iter features) (\<lambda>fs.
            bindE (map_err (format_alert R) fs) (\<lambda>alerts.
            Inr (join delimiter alerts))))))"
  using assms by (simp add: get_alerts_def del: make_nws_request.simps)

text \<open>
  C5. With \<open>data\<close> what the request for the alerts returned: when it is \<^verbatim>\<open>None\<close> or a dict
  without \<^verbatim>\<open>features\<close>, the result is the unable-to-fetch message; when it is a dict with
  \<^verbatim>\<open>features\<close> the empty list, the result is the no-active-alerts message; when \<^verbatim>\<open>features\<close>
  is a non-empty list whose members format to \<open>alerts\<close>, the result is \<open>alerts\<close> joined by the
  delimiter. The two messages differ.
\<close>

theorem get_alerts_messages:
  fixes R :: "'f runtime" and net :: "'f network" and state :: string
    and sent :: "request list"
  defines "data \<equiv> fst (make_nws_request net (JStr (alerts_url state)) sent)"
  shows
    "(data = JNull \<or> (\<exists>kvs. data = JDict kvs \<and> map_of kvs ''features'' = None) \<longrightarrow>
        fst (get_alerts R net state sent) = Inr ''Unable to fetch alerts or no alerts found.'') \<and>
     (data = JDict kvs \<and> map_of kvs ''features'' = Some (JList []) \<longrightarrow>
        fst (get_alerts R net state sent) = Inr ''No active alerts for this state.'') \<and>
     (data = JDict kvs \<and> map_of kvs ''features'' = Some (JList fs) \<and> fs \<noteq> [] \<and>
      list_all2 (\<lambda>f a. format_alert R f = Inr a) fs alerts \<longrightarrow>
        fst (get_alerts R net state sent) = Inr (join delimiter alerts)) \<and>
     ''Unable to fetch alerts or no alerts found.'' \<noteq> ''No active alerts for this state.''"
proof -
  obtain d s where eq: "make_nws_request net (JStr (alerts_url state)) sent = (d, s)"
    by (cases "make_nws_request net (JStr (alerts_url state)) sent")
  have d: "data = d"
    using eq by (simp add: data_def del: make_nws_request.simps)
  note r = get_alerts_fst [OF eq, of R]
  have key: "map_of kvs ''features'' = Some v \<Longrightarrow> kvs \<noteq> [] \<and> ''features'' \<in> fst ` set kvs"
    for v and kvs :: "(string \<times> 'f json) list"
    using map_of_eq_None_iff [of kvs "''features''"] by auto
  have a: "fst (get_alerts R net state sent) = Inr ''Unable to fetch alerts or no alerts found.''"
    if "data = JNull \<or> (\<exists>kvs. data = JDict kvs \<and> map_of kvs ''features'' = None)"
    using that unfolding d r by (auto simp: map_of_eq_None_iff)
  have b: "fst (get_alerts R net state sent) = Inr ''No active alerts for this state.''"
    if "data = JDict kvs" and "map_of kvs ''features'' = Some (JList [])"
    using that key [OF that(2)] unfolding d r by auto
  have c: "fst (get_alerts R net state sent) = Inr (join delimiter alerts)"
    if "data = JDict kvs" and "map_of kvs ''features'' = Some (JList fs)" and "fs \<noteq> []"
      and "list_all2 (\<lambda>f a. format_alert R f = Inr a) fs alerts"
    using that key [OF that(2)] map_err_list_all2 [of "format_alert R" fs alerts]
    unfolding d r by auto
  show ?thesis
    using a b c by simp
qed

lemma ex_alert_format: "format_alert ex_runtime ex_alert = Inr ex_alert_text"
  by (simp add: format_alert_def get_str_def ex_alert_def ex_alert_text_def)

theorem get_alerts_messages_witness:
  "fst (get_alerts ex_runtime (ex_always TransportError) ''CA'' []) =
     Inr ''Unable to fetch alerts or no alerts found.'' \<and>
   fst (get_alerts ex_runtime
     (ex_always (Response 200 (Some (JDict [(''features'', JList [])])))) ''CA'' []) =
     Inr ''No active alerts for this state.'' \<and>
   fst (get_alerts ex_runtime
     (ex_always (Response 200 (Some (JDict [(''features'', JList [ex_alert, ex_alert])]))))
     ''CA'' []) =
     Inr (ex_alert_text @ delimiter @ ex_alert_text)"
  using
    get_alerts_messages [where R = ex_runtime and state = "''CA''" and sent = "[]"
      and net = "ex_always TransportError"]
    get_alerts_messages [where R = ex_runtime and state = "''CA''" and sent = "[]"
      and net = "ex_always (Response 200 (Some (JDict [(''features'', JList [])])))"
      and kvs = "[(''features'', JList [])]"]
    get_alerts_messages [where R = ex_runtime and state = "''CA''" and sent = "[]"
      and net = "ex_always (Response 200 (Some (JDict [(''features'', JList [ex_alert, ex_alert])])))"
      and kvs = "[(''features'', JList [ex_alert, ex_alert])]"
      and fs = "[ex_alert, ex_alert]" and alerts = "[ex_alert_text, ex_alert_text]"]
  by (simp add: client_get_def fetch_json_def is_success_def ex_alert_format)

text \<open>
  C4. When the points call returns nothing usable (\<^verbatim>\<open>None\<close>, or any falsy value),
  \<open>get_forecast\<close> sends exactly two requests: the points request, then one request to the
  fallback provider. If the fallback returns nothing usable either, the result is the fixed
  no-provider message, a string and not an exception.
\<close>

theorem get_forecast_points_unavailable:
  assumes "\<not> truthy R (fst (make_nws_request net (JStr (points_url R lat lon)) sent))"
  shows "snd (get_forecast R net lat lon sent) =
           sent @ [nws_request (points_url R lat lon), openmeteo_request R lat lon] \<and>
         (\<not> truthy R (fst (make_openmeteo_request R net lat lon
               (sent @ [nws_request (points_url R lat lon)]))) \<longrightarrow>
          fst (get_forecast R net lat lon sent) =
            Inr ''Unable to fetch forecast data from any provider.'')"
  using get_forecast_points_falsy [OF assms]
    fallback_snd [of R net lat lon "sent @ [nws_request (points_url R lat lon)]"]
    fallback_unavailable [of R net lat lon "sent @ [nws_request (points_url R lat lon)]"]
  by simp

theorem get_forecast_points_unavailable_witness:
  "get_forecast ex_runtime (ex_always TransportError) 47 (- 122) [] =
     (Inr ''Unable to fetch forecast data from any provider.'',
      [nws_request ''https://api.weather.gov/points/47.0,-122.0'',
       openmeteo_request ex_runtime 47 (- 122)])"
  using get_forecast_points_unavailable [where R = ex_runtime and lat = 47 and lon = "- 122"
      and sent = "[]" and net = "ex_always TransportError"]
  by (simp add: prod_eq_iff client_get_def fetch_json_def make_openmeteo_request_def
      ex_points_url)

text \<open>
  C6. When both authoritative calls succeed and the forecast response holds seven periods,
  the first five of which format to the blocks \<open>ba\<close>, ..., \<open>be\<close>, the result of
  \<open>get_forecast\<close> is those five blocks in the provider's order, joined by the delimiter.
  Periods six and seven play no part in it.
\<close>

theorem get_forecast_seven_periods:
  assumes "net sent (nws_request (points_url R lat lon)) = Response sp (Some pd)"
    and "is_success sp" and "truthy R pd"
    and "getitem pd ''properties'' = Inr pp" and "getitem pp ''forecast'' = Inr (JStr u)"
    and "net (sent @ [nws_request (points_url R lat lon)]) (nws_request u) =
        Response sf (Some fd)"
    and "is_success sf" and "truthy R fd"
    and "getitem fd ''properties'' = Inr fp"
    and "getitem fp ''periods'' = Inr (JList [qa, qb, qc, qd, qe, qf, qg])"
    and "period_block R qa = Inr ba" and "period_block R qb = Inr bb"
    and "period_block R qc = Inr bc" and "period_block R qd = Inr bd"
    and "period_block R qe = Inr be"
  shows "get_forecast R net lat lon sent =
     (Inr (ba @ delimiter @ bb @ delimiter @ bc @ delimiter @ bd @ delimiter @ be),
      sent @ [nws_request (points_url R lat lon), nws_request u])"
proof -
  have "list_all2 (\<lambda>p b. period_block R p = Inr b)
      (take 5 [qa, qb, qc, qd, qe, qf, qg]) [ba, bb, bc, bd, be]"
    using assms(11-15) by simp
  then have "format_periods R fd = Inr (join delimiter [ba, bb, bc, bd, be])"
    using assms(9,10) by (rule format_periods_list [rotated 2])
  then show ?thesis
    using get_forecast_authoritative [OF assms(1-8)] by simp
qed

theorem get_forecast_seven_periods_witness:
  "get_forecast ex_runtime
     (ex_net (Response 200 (Some ex_points_doc))
        (Response 200 (Some (ex_forecast_doc
           [ex_period ''Mon'', ex_period ''Tue'', ex_period ''Wed'', ex_period ''Thu'',
            ex_period ''Fri'', ex_period ''Sat'', ex_period ''Sun'']))))
     47 (- 122) [] =
   (Inr (ex_block ''Mon'' @ delimiter @ ex_block ''Tue'' @ delimiter @ ex_block ''Wed'' @
         delimiter @ ex_block ''Thu'' @ delimiter @ ex_block ''Fri''),
    [nws_request ''https://api.weather.gov/points/47.0,-122.0'', nws_request ex_forecast_url])"
  using get_forecast_seven_periods [where R = ex_runtime and lat = 47 and lon = "- 122"
      and sent = "[]" and u = ex_forecast_url and pd = ex_points_doc and sp = 200 and sf = 200
      and fd = "ex_forecast_doc
           [ex_period ''Mon'', ex_period ''Tue'', ex_period ''Wed'', ex_period ''Thu'',
            ex_period ''Fri'', ex_period ''Sat'', ex_period ''Sun'']"
      and net = "ex_net (Response 200 (Some ex_points_doc))
        (Response 200 (Some (ex_forecast_doc
           [ex_period ''Mon'', ex_period ''Tue'', ex_period ''Wed'', ex_period ''Thu'',
            ex_period ''Fri'', ex_period ''Sat'', ex_period ''Sun''])))"
      and qa = "ex_period ''Mon''" and qb = "ex_period ''Tue''" and qc = "ex_period ''Wed''"
      and qd = "ex_period ''Thu''" and qe = "ex_period ''Fri''" and qf = "ex_period ''Sat''"
      and qg = "ex_period ''Sun''"]
  by (simp add: ex_net_def ex_points_doc_def ex_forecast_doc_def is_success_def ex_points_url
      ex_period_block)

text \<open>
  C7. When the fallback payload is a dict whose \<^verbatim>\<open>daily\<close> block has five entries in each of
  its four columns, and its current-weather block formats to \<open>head\<close>, the output is \<open>head\<close>
  followed by exactly three daily lines: those of the first three entries, in the order
  given.
\<close>

theorem format_openmeteo_five_days:
  assumes "py_get data ''current_weather'' (JDict []) = Inr current"
    and "current_block R current = Inr head"
    and "py_get data ''daily'' (JDict []) = Inr (JDict daily)"
    and "map_of daily ''time'' = Some (JList [ta, tb, tc, td, te])"
    and "map_of daily ''temperature_2m_max'' = Some (JList [xa, xb, xc, xd, xe])"
    and "map_of daily ''temperature_2m_min'' = Some (JList [na, nb, nc, nd, ne])"
    and "map_of daily ''weathercode'' = Some (JList [ca, cb, cc, cd, ce])"
  shows "format_openmeteo_forecast R data =
     Inr (head @ daily_text R ta xa na ca @ daily_text R tb xb nb cb @
          daily_text R tc xc nc cc)"
  using assms by (simp add: format_openmeteo_forecast_def daily_line_def upt_0_3)

theorem format_openmeteo_five_days_witness:
  "format_openmeteo_forecast ex_runtime ex_payload =
     Inr (ex_head @ ''2024-05-01: High 21'' @ deg @ ''C, Low 11'' @ deg @ ''C, Code 1'' @ nl @
          ''2024-05-02: High 22'' @ deg @ ''C, Low 12'' @ deg @ ''C, Code 2'' @ nl @
          ''2024-05-03: High 23'' @ deg @ ''C, Low 13'' @ deg @ ''C, Code 3'' @ nl)"
  using format_openmeteo_five_days [where R = ex_runtime and data = ex_payload
      and current = "JDict [(''temperature'', JInt 18)]" and head = ex_head
      and daily = "[(''time'', JList [JStr ''2024-05-01'', JStr ''2024-05-02'', JStr ''2024-05-03'',
                              JStr ''2024-05-04'', JStr ''2024-05-05'']),
            (''temperature_2m_max'', JList [JInt 21, JInt 22, JInt 23, JInt 24, JInt 25]),
            (''temperature_2m_min'', JList [JInt 11, JInt 12, JInt 13, JInt 14, JInt 15]),
            (''weathercode'', JList [JInt 1, JInt 2, JInt 3, JInt 61, JInt 0])]"]
  by (simp add: ex_payload_def ex_daily_def ex_head_def current_block_def get_str_def
      daily_text_def str_int_def digit_def)

text \<open>
  C3. The claim: no missing field makes a forecast formatter raise; each renders as a
  placeholder. The code: a period without \<^verbatim>\<open>detailedForecast\<close> makes \<^verbatim>\<open>period['detailedForecast']\<close>
  (line 160) raise KeyError, and a fallback payload whose \<^verbatim>\<open>daily\<close> block has \<^verbatim>\<open>time\<close> but no
  \<^verbatim>\<open>temperature_2m_max\<close> makes \<^verbatim>\<open>daily["temperature_2m_max"]\<close> (line 96) raise KeyError; both
  escape \<open>get_forecast\<close>. Only the current-weather block is read with \<^verbatim>\<open>.get(..., 'N/A')\<close>.
\<close>

theorem get_forecast_missing_field_raises:
  "get_forecast ex_runtime
     (ex_net (Response 200 (Some ex_points_doc))
        (Response 200 (Some (ex_forecast_doc
           [JDict [(''name'', JStr ''Tonight''), (''temperature'', JInt 50),
                   (''temperatureUnit'', JStr ''F''), (''windSpeed'', JStr ''5 mph''),
                   (''windDirection'', JStr ''N'')]]))))
     47 (- 122) [] =
   (Inl KeyError,
    [nws_request ''https://api.weather.gov/points/47.0,-122.0'', nws_request ex_forecast_url]) \<and>
   get_forecast ex_runtime
     (ex_net TransportError
        (Response 200 (Some (JDict [(''daily'', JDict [(''time'', JList [JStr ''2024-05-01''])])]))))
     47 (- 122) [] =
   (Inl KeyError,
    [nws_request ''https://api.weather.gov/points/47.0,-122.0'',
     openmeteo_request ex_runtime 47 (- 122)])"
  by (simp add: get_forecast_def fallback_def make_openmeteo_request_def client_get_def
      fetch_json_def is_success_def ex_net_def ex_points_doc_def ex_forecast_doc_def
      ex_points_url format_periods_def period_block_def format_openmeteo_forecast_def
      current_block_def get_str_def daily_line_def)

lemma fallback_available:
  "truthy R (fst (make_openmeteo_request R net lat lon sent)) \<Longrightarrow>
   fst (fallback R net lat lon sent) =
     format_openmeteo_forecast R (fst (make_openmeteo_request R net lat lon sent))"
  by (cases "make_openmeteo_request R net lat lon sent") (simp add: fallback_def)

text \<open>
  C2, as stated, fails: with both authoritative calls successful and an empty list of
  periods, \<open>get_forecast\<close> returns the authoritative formatting (the empty string) and sends
  nothing to the fallback provider.
\<close>

theorem get_forecast_nonempty_counterexample:
  "getitem (ex_forecast_doc []) ''properties'' = Inr (JDict [(''periods'', JList [])]) \<and>
   get_forecast ex_runtime
     (ex_net (Response 200 (Some ex_points_doc)) (Response 200 (Some (ex_forecast_doc []))))
     47 (- 122) [] =
   (format_periods ex_runtime (ex_forecast_doc []),
    [nws_request ''https://api.weather.gov/points/47.0,-122.0'', nws_request ex_forecast_url]) \<and>
   format_periods ex_runtime (ex_forecast_doc []) = Inr []"
  by (simp add: get_forecast_def client_get_def fetch_json_def is_success_def ex_net_def
      ex_points_doc_def ex_forecast_doc_def ex_points_url format_periods_def)

text \<open>
  C2, amended. With \<open>P\<close> the points request: when the points call and the forecast call
  both return usable data with the expected keys and the first five periods (if any) format
  to \<open>blocks\<close>, \<open>get_forecast\<close> returns the blocks joined by the delimiter, for an empty list
  the empty string, after the two authoritative requests. When the points call, or after a
  usable points response the forecast call, returns nothing usable, \<open>get_forecast\<close> behaves as
  the fallback: one request to the fallback provider, whose payload is formatted if usable;
  otherwise the result is the fixed no-provider message.
\<close>

theorem get_forecast_chain:
  fixes R :: "'f runtime" and net :: "'f network" and lat lon :: 'f and sent :: "request list"
  defines "P \<equiv> nws_request (points_url R lat lon)"
  shows
    "(net sent P = Response sp (Some pd) \<and> is_success sp \<and> truthy R pd \<and>
      getitem pd ''properties'' = Inr pp \<and> getitem pp ''forecast'' = Inr (JStr u) \<and>
      net (sent @ [P]) (nws_request u) = Response sf (Some fd) \<and> is_success sf \<and>
      truthy R fd \<and> getitem fd ''properties'' = Inr fp \<and>
      getitem fp ''periods'' = Inr (JList ps) \<and>
      list_all2 (\<lambda>p b. period_block R p = Inr b) (take 5 ps) blocks \<longrightarrow>
        get_forecast R net lat lon sent =
          (Inr (join delimiter blocks), sent @ [P, nws_request u])) \<and>
     (\<not> truthy R (fst (make_nws_request net (JStr (points_url R lat lon)) sent)) \<longrightarrow>
        get_forecast R net lat lon sent = fallback R net lat lon (sent @ [P])) \<and>
     (net sent P = Response sp (Some pd) \<and> is_success sp \<and> truthy R pd \<and>
      getitem pd ''properties'' = Inr pp \<and> getitem pp ''forecast'' = Inr furl \<and>
      \<not> truthy R (fst (make_nws_request net furl (sent @ [P]))) \<longrightarrow>
        get_forecast R net lat lon sent =
          fallback R net lat lon (snd (make_nws_request net furl (sent @ [P])))) \<and>
     snd (fallback R net lat lon t) = t @ [openmeteo_request R lat lon] \<and>
     (truthy R (fst (make_openmeteo_request R net lat lon t)) \<longrightarrow>
        fst (fallback R net lat lon t) =
          format_openmeteo_forecast R (fst (make_openmeteo_request R net lat lon t))) \<and>
     (\<not> truthy R (fst (make_openmeteo_request R net lat lon t)) \<longrightarrow>
        fst (fallback R net lat lon t) =
          Inr ''Unable to fetch forecast data from any provider.'')"
proof -
  have a: "get_forecast R net lat lon sent =
      (Inr (join delimiter blocks), sent @ [P, nws_request u])"
    if "net sent P = Response sp (Some pd)" "is_success sp" "truthy R pd"
      "getitem pd ''properties'' = Inr pp" "getitem pp ''forecast'' = Inr (JStr u)"
      "net (sent @ [P]) (nws_request u) = Response sf (Some fd)" "is_success sf"
      "truthy R fd" "getitem fd ''properties'' = Inr fp"
      "getitem fp ''periods'' = Inr (JList ps)"
      "list_all2 (\<lambda>p b. period_block R p = Inr b) (take 5 ps) blocks"
    using get_forecast_authoritative [OF that(1-8) [unfolded P_def]]
      format_periods_list [OF that(9-11)]
    by (simp add: P_def)
  have b: "get_forecast R net lat lon sent = fallback R net lat lon (sent @ [P])"
    if "\<not> truthy R (fst (make_nws_request net (JStr (points_url R lat lon)) sent))"
    using get_forecast_points_falsy [OF that] by (simp add: P_def)
  have c: "get_forecast R net lat lon sent =
      fallback R net lat lon (snd (make_nws_request net furl (sent @ [P])))"
    if "net sent P = Response sp (Some pd)" "is_success sp" "truthy R pd"
      "getitem pd ''properties'' = Inr pp" "getitem pp ''forecast'' = Inr furl"
      "\<not> truthy R (fst (make_nws_request net furl (sent @ [P])))"
    using get_forecast_forecast_falsy [OF that [unfolded P_def]] by (simp add: P_def)
  show ?thesis
    using a b c fallback_snd [of R net lat lon t] fallback_available [of R net lat lon t]
      fallback_unavailable [of R net lat lon t]
    by blast
qed

theorem get_forecast_chain_witness:
  "get_forecast ex_runtime
     (ex_net (Response 200 (Some ex_points_doc))
        (Response 200 (Some (ex_forecast_doc [ex_period ''Mon'', ex_period ''Tue'']))))
     47 (- 122) [] =
   (Inr (ex_block ''Mon'' @ delimiter @ ex_block ''Tue''),
    [nws_request ''https://api.weather.gov/points/47.0,-122.0'', nws_request ex_forecast_url]) \<and>
   get_forecast ex_runtime (ex_net (Response 404 None) TransportError) 47 (- 122) [] =
   (Inr ''Unable to fetch forecast data from any provider.'',
    [nws_request ''https://api.weather.gov/points/47.0,-122.0'',
     openmeteo_request ex_runtime 47 (- 122)]) \<and>
   get_forecast ex_runtime (ex_net (Response 200 (Some ex_points_doc)) (Response 503 None))
     47 (- 122) [] =
   (Inr ''Unable to fetch forecast data from any provider.'',
    [nws_request ''https://api.weather.gov/points/47.0,-122.0'', nws_request ex_forecast_url,
     openmeteo_request ex_runtime 47 (- 122)])"
proof -
  have one: "get_forecast ex_runtime
     (ex_net (Response 200 (Some ex_points_doc))
        (Response 200 (Some (ex_forecast_doc [ex_period ''Mon'', ex_period ''Tue'']))))
     47 (- 122) [] =
   (Inr (ex_block ''Mon'' @ delimiter @ ex_block ''Tue''),
    [nws_request ''https://api.weather.gov/points/47.0,-122.0'', nws_request ex_forecast_url])"
    using get_forecast_chain [where R = ex_runtime and lat = 47 and lon = "- 122"
      and sent = "[]" and u = ex_forecast_url and pd = ex_points_doc and sp = 200 and sf = 200
      and fd = "ex_forecast_doc [ex_period ''Mon'', ex_period ''Tue'']"
      and ps = "[ex_period ''Mon'', ex_period ''Tue'']"
      and blocks = "[ex_block ''Mon'', ex_block ''Tue'']"
      and net = "ex_net (Response 200 (Some ex_points_doc))
        (Response 200 (Some (ex_forecast_doc [ex_period ''Mon'', ex_period ''Tue''])))"]
    by (simp add: ex_net_def ex_points_doc_def ex_forecast_doc_def is_success_def ex_points_url
        ex_period_block)
  have two: "get_forecast ex_runtime (ex_net (Response 404 None) TransportError) 47 (- 122) [] =
   (Inr ''Unable to fetch forecast data from any provider.'',
    [nws_request ''https://api.weather.gov/points/47.0,-122.0'',
     openmeteo_request ex_runtime 47 (- 122)])"
    using get_forecast_chain [where R = ex_runtime and lat = 47 and lon = "- 122"
      and sent = "[]" and net = "ex_net (Response 404 None) TransportError"
      and t = "[nws_request ''https://api.weather.gov/points/47.0,-122.0'']"]
    by (simp add: prod_eq_iff ex_net_def client_get_def fetch_json_def is_success_def
        make_openmeteo_request_def ex_points_url)
  have three: "get_forecast ex_runtime
     (ex_net (Response 200 (Some ex_points_doc)) (Response 503 None)) 47 (- 122) [] =
   (Inr ''Unable to fetch forecast data from any provider.'',
    [nws_request ''https://api.weather.gov/points/47.0,-122.0'', nws_request ex_forecast_url,
     openmeteo_request ex_runtime 47 (- 122)])"
    using get_forecast_chain [where R = ex_runtime and lat = 47 and lon = "- 122"
      and sent = "[]" and pd = ex_points_doc and sp = 200 and furl = "JStr ex_forecast_url"
      and net = "ex_net (Response 200 (Some ex_points_doc)) (Response 503 None)"
      and t = "[nws_request ''https://api.weather.gov/points/47.0,-122.0'',
                nws_request ex_forecast_url]"]
    by (simp add: prod_eq_iff ex_net_def ex_points_doc_def client_get_def fetch_json_def
        is_success_def make_openmeteo_request_def ex_points_url)
  show ?thesis
    using one two three by simp
qed

end
